theory Spec2Isabelle
  imports Main "HOL-Library.AList"
begin

section \<open>Python values shared by both backends\<close>

text \<open>
  A Python \<open>str\<close> is modelled by the list of its UTF-8 bytes, so \<open>str.encode()\<close> is
  the identity on the representation. Exceptions are values: every function that can
  raise returns \<open>exn + 'a\<close> with \<open>Inl\<close> holding the exception.
\<close>

datatype jvalue =
    JNone
  | JBool bool
  | JStr string
  | JList "string list"

type_synonym pydict = "string \<rightharpoonup> jvalue"

datatype exn =
    AuthException string nat
  | InvalidAuth string nat
  | HTTPForbidden string
  | HTTPClientError string
  | KeyError string
  | TypeError string
  | ExpiredSignatureError string
  | InvalidSignatureError string
  | DecodeError string
  | InvalidTokenError string
  | OtherError string

text \<open>The aiohttp responses that can be raised: subclasses of \<open>web.HTTPException\<close>.\<close>

fun is_http_exception :: "exn \<Rightarrow> bool" where
  "is_http_exception (HTTPForbidden r) = True"
| "is_http_exception (HTTPClientError r) = True"
| "is_http_exception e = False"

text \<open>
  \<open>str(err)\<close> and \<open>repr(err)\<close>. Python's \<open>repr\<close> of a \<open>str\<close> (its quoting and
  escaping) is the parameter \<open>rp\<close>; \<open>str(KeyError(k))\<close> is \<open>repr(k)\<close>.
\<close>

fun str_exn :: "(string \<Rightarrow> string) \<Rightarrow> exn \<Rightarrow> string" where
  "str_exn rp (AuthException m s) = m"
| "str_exn rp (InvalidAuth m s) = m"
| "str_exn rp (HTTPForbidden r) = r"
| "str_exn rp (HTTPClientError r) = r"
| "str_exn rp (KeyError k) = rp k"
| "str_exn rp (TypeError m) = m"
| "str_exn rp (ExpiredSignatureError m) = m"
| "str_exn rp (InvalidSignatureError m) = m"
| "str_exn rp (DecodeError m) = m"
| "str_exn rp (InvalidTokenError m) = m"
| "str_exn rp (OtherError m) = m"

fun repr_exn :: "(string \<Rightarrow> string) \<Rightarrow> exn \<Rightarrow> string" where
  "repr_exn rp (ExpiredSignatureError m) = ''ExpiredSignatureError('' @ rp m @ '')''"
| "repr_exn rp (InvalidSignatureError m) = ''InvalidSignatureError('' @ rp m @ '')''"
| "repr_exn rp (DecodeError m) = ''DecodeError('' @ rp m @ '')''"
| "repr_exn rp (InvalidTokenError m) = ''InvalidTokenError('' @ rp m @ '')''"
| "repr_exn rp e = str_exn rp e"

text \<open>\<open>str(x)\<close> of an optional string: \<open>None\<close> prints as \<open>None\<close>.\<close>

fun str_opt :: "string option \<Rightarrow> string" where
  "str_opt None = ''None''"
| "str_opt (Some s) = s"

subsection \<open>String primitives\<close>

text \<open>
  \<open>str.strip()\<close> removes the whitespace characters at both ends: the characters Python's
  \<open>str.isspace\<close> accepts, here as their UTF-8 bytes (U+0009 to U+000D, U+001C to U+0020,
  U+0085, U+00A0, U+1680, U+2000 to U+200A, U+2028, U+2029, U+202F, U+205F, U+3000). In
  the bytes of a \<open>str\<close> such a sequence at either end is that character.
\<close>

definition py_whitespace :: "string list" where
  "py_whitespace =
     [ [CHR 0x09], [CHR 0x0A], [CHR 0x0B], [CHR 0x0C], [CHR 0x0D],
       [CHR 0x1C], [CHR 0x1D], [CHR 0x1E], [CHR 0x1F], [CHR 0x20],
       [CHR 0xC2, CHR 0x85], [CHR 0xC2, CHR 0xA0],
       [CHR 0xE1, CHR 0x9A, CHR 0x80],
       [CHR 0xE2, CHR 0x80, CHR 0x80], [CHR 0xE2, CHR 0x80, CHR 0x81],
       [CHR 0xE2, CHR 0x80, CHR 0x82], [CHR 0xE2, CHR 0x80, CHR 0x83],
       [CHR 0xE2, CHR 0x80, CHR 0x84], [CHR 0xE2, CHR 0x80, CHR 0x85],
       [CHR 0xE2, CHR 0x80, CHR 0x86], [CHR 0xE2, CHR 0x80, CHR 0x87],
       [CHR 0xE2, CHR 0x80, CHR 0x88], [CHR 0xE2, CHR 0x80, CHR 0x89],
       [CHR 0xE2, CHR 0x80, CHR 0x8A],
       [CHR 0xE2, CHR 0x80, CHR 0xA8], [CHR 0xE2, CHR 0x80, CHR 0xA9],
       [CHR 0xE2, CHR 0x80, CHR 0xAF],
       [CHR 0xE2, CHR 0x81, CHR 0x9F],
       [CHR 0xE3, CHR 0x80, CHR 0x80] ]"

text \<open>The length of the sequence of \<open>ws\<close> that \<open>s\<close> begins with, 0 when there is none.\<close>

definition ws_len :: "string list \<Rightarrow> string \<Rightarrow> nat" where
  "ws_len ws s =
     (case find (\<lambda>w. take (length w) s = w) ws of
        None \<Rightarrow> 0
      | Some w \<Rightarrow> length w)"

function strip_left :: "string list \<Rightarrow> string \<Rightarrow> string" where
  "strip_left ws s = (if ws_len ws s = 0 then s else strip_left ws (drop (ws_len ws s) s))"
  by pat_completeness auto
termination
proof (relation "measure (\<lambda>(ws, s). length s)")
  show "wf (measure (\<lambda>(ws, s). length s))"
    by simp
next
  fix ws :: "string list" and s :: string
  assume n: "ws_len ws s \<noteq> 0"
  then obtain w where "find (\<lambda>w. take (length w) s = w) ws = Some w" and "length w \<noteq> 0"
    by (auto simp: ws_len_def split: option.splits)
  then have "take (length w) s = w" and "w \<noteq> []"
    by (auto simp: find_Some_iff)
  then have "s \<noteq> []"
    by auto
  with n show "((ws, drop (ws_len ws s) s), (ws, s)) \<in> measure (\<lambda>(ws, s). length s)"
    by simp
qed

declare strip_left.simps [simp del]

definition lstrip :: "string \<Rightarrow> string" where
  "lstrip s = strip_left py_whitespace s"

definition rstrip :: "string \<Rightarrow> string" where
  "rstrip s = rev (strip_left (map rev py_whitespace) (rev s))"

definition strip :: "string \<Rightarrow> string" where
  "strip s = rstrip (lstrip s)"

text \<open>\<open>s.split(sep)\<close> for a one-character separator: every occurrence splits.\<close>

fun split_all :: "char \<Rightarrow> string \<Rightarrow> string list" where
  "split_all sep [] = [ [] ]"
| "split_all sep (x # xs) =
     (if x = sep then [] # split_all sep xs
      else (case split_all sep xs of
              [] \<Rightarrow> [ [x] ]
            | y # ys \<Rightarrow> (x # y) # ys))"

text \<open>\<open>s.split(sep, 1)\<close>: only the first occurrence splits.\<close>

definition split_first :: "char \<Rightarrow> string \<Rightarrow> string list" where
  "split_first sep s =
     (if sep \<in> set s
      then [takeWhile (\<lambda>x. x \<noteq> sep) s, tl (dropWhile (\<lambda>x. x \<noteq> sep) s)]
      else [s])"

section \<open>The API-token backend (backends/token.py)\<close>

text \<open>A row of \<open>auth.partner_keys\<close>, with the columns the query reads.\<close>

record partner_key =
  pk_name :: string
  pk_partner :: string
  pk_grants :: "string list"
  pk_programs :: "string list"
  pk_enabled :: bool
  pk_revoked :: bool

text \<open>
  The connection pool \<open>app['authdb']\<close>: \<open>acquire\<close> may raise, \<open>queryrow\<close> may raise
  or return an error beside its result, and the table holds the rows.
\<close>

record pool =
  acquire_raises :: "exn option"
  queryrow_raises :: "exn option"
  queryrow_error :: "string option"
  partner_keys :: "partner_key list"

record usr =
  attributes :: pydict
  is_authenticated :: bool

record session =
  session_data :: pydict
  session_objects :: "string \<rightharpoonup> usr"

record request =
  headers :: "string \<rightharpoonup> string"
  app :: "string \<rightharpoonup> pool"
  items :: pydict
  user :: "usr option"
  req_session :: "session option"

text \<open>
  What the backend object holds and the collaborators it calls: the configured scheme
  and attribute names, PyJWT with the configured secret, algorithm and leeway
  (\<open>jwt_decode\<close>, \<open>jwt_encode\<close>), the user factory, the session store.
\<close>

record backend =
  scheme :: string
  session_key_property :: string
  username_attribute :: string
  AUTH_TOKEN_ISSUER :: string
  py_repr :: "string \<Rightarrow> string"
  jwt_decode :: "string \<Rightarrow> exn + pydict"
  jwt_encode :: "pydict \<Rightarrow> exn + string"
  create_user :: "pydict \<Rightarrow> exn + usr"
  remember :: "request \<Rightarrow> jvalue \<Rightarrow> pydict \<Rightarrow> usr \<Rightarrow> exn option"
  get_session :: "request \<Rightarrow> pydict \<Rightarrow> exn + session"

text \<open>
  \<open>get_payload\<close> returns the list \<open>[tenant, token]\<close> (here \<open>Some (tenant, token)\<close>), or
  \<open>None\<close> when the header is malformed or has another scheme: both \<open>AuthException\<close>s are
  raised inside the outer \<open>try\<close> and caught by its \<open>except Exception\<close>.
\<close>

definition get_payload :: "backend \<Rightarrow> request \<Rightarrow> (string option \<times> string option) option" where
  "get_payload self request =
     (case headers request ''Authorization'' of
        None \<Rightarrow> Some (None, None)
      | Some h \<Rightarrow>
          (case split_first CHR '' '' (strip h) of
             [scheme', ident] \<Rightarrow>
               if scheme' \<noteq> scheme self then None
               else (case split_all CHR '':'' ident of
                       [tenant, token] \<Rightarrow> Some (Some tenant, Some token)
                     | _ \<Rightarrow> Some (None, Some ident))
           | _ \<Rightarrow> None))"

text \<open>
  The query of \<open>check_token_info\<close>:
  \<^verbatim>\<open>SELECT name, partner, grants, programs FROM auth.partner_keys
  WHERE name=$1 AND partner=$2
  AND enabled = TRUE AND revoked = FALSE AND $3= ANY(programs)\<close>
  A bound value that is not a string equals no name, and a NULL \<open>$3\<close> (the tenant
  \<open>None\<close>) is an element of no array.
\<close>

definition where_clause :: "jvalue \<Rightarrow> jvalue \<Rightarrow> string option \<Rightarrow> partner_key \<Rightarrow> bool" where
  "where_clause name partner tenant r =
     (JStr (pk_name r) = name \<and> JStr (pk_partner r) = partner
      \<and> pk_enabled r \<and> \<not> pk_revoked r
      \<and> (case tenant of None \<Rightarrow> False | Some t \<Rightarrow> t \<in> set (pk_programs r)))"

definition select_row :: "partner_key \<Rightarrow> pydict" where
  "select_row r =
     [''name'' \<mapsto> JStr (pk_name r), ''partner'' \<mapsto> JStr (pk_partner r),
      ''grants'' \<mapsto> JList (pk_grants r), ''programs'' \<mapsto> JList (pk_programs r)]"

text \<open>\<open>conn.queryrow(sql, name, partner, tenant)\<close> returns the pair \<open>(result, error)\<close>.\<close>

definition queryrow ::
  "pool \<Rightarrow> jvalue \<Rightarrow> jvalue \<Rightarrow> string option \<Rightarrow> exn + (pydict option \<times> string option)" where
  "queryrow conn name partner tenant =
     (case queryrow_raises conn of
        Some err \<Rightarrow> Inl err
      | None \<Rightarrow>
          Inr (map_option select_row (find (where_clause name partner tenant) (partner_keys conn)),
               queryrow_error conn))"

text \<open>
  \<open>check_token_info\<close> returns the row, or \<open>False\<close> (here \<open>None\<close>). The lookup
  \<open>app['authdb']\<close> stands before the \<open>try\<close>, so its \<open>KeyError\<close> is raised to the caller.
\<close>

definition check_token_info :: "request \<Rightarrow> string option \<Rightarrow> pydict \<Rightarrow> exn + pydict option" where
  "check_token_info request tenant payload =
     (case payload ''name'' of
        None \<Rightarrow> Inr None
      | Some name \<Rightarrow>
     (case payload ''partner'' of
        None \<Rightarrow> Inr None
      | Some partner \<Rightarrow>
     (case app request ''authdb'' of
        None \<Rightarrow> Inl (KeyError ''authdb'')
      | Some pool \<Rightarrow>
     (case acquire_raises pool of
        Some err \<Rightarrow> Inr None
      | None \<Rightarrow>
     (case queryrow pool name partner tenant of
        Inl err \<Rightarrow> Inr None
      | Inr (result, error) \<Rightarrow>
          if error \<noteq> None \<or> result = None then Inr None else Inr result)))))"

text \<open>What \<open>authenticate\<close> returns: the value \<open>False\<close>, or the dictionary of the identity.\<close>

datatype auth_result = RetFalse | RetDict pydict

text \<open>
  Modelled from the spec: \<open>BaseAuthBackend.create_jwt\<close> is not among the sources. The
  spec says that the authenticator "issues a fresh signed JWT embedding that identity"
  and that tenant tokens are signed with the shared secret: the identity is the payload
  handed to PyJWT's \<open>encode\<close> with that secret.
\<close>

definition create_jwt :: "backend \<Rightarrow> pydict \<Rightarrow> exn + string" where
  "create_jwt self data = jwt_encode self data"

text \<open>The dictionary \<open>user\<close> built from the row.\<close>

definition user_dict :: "backend \<Rightarrow> string option \<Rightarrow> jvalue \<Rightarrow> jvalue \<Rightarrow> jvalue \<Rightarrow> jvalue \<Rightarrow> pydict" where
  "user_dict self tenant name username grants programs =
     [''name'' \<mapsto> name, ''partner'' \<mapsto> username, ''issuer'' \<mapsto> JStr (AUTH_TOKEN_ISSUER self),
      ''programs'' \<mapsto> programs, ''grants'' \<mapsto> grants,
      ''tenant'' \<mapsto> (case tenant of None \<Rightarrow> JNone | Some t \<Rightarrow> JStr t),
      ''id'' \<mapsto> name, ''user_id'' \<mapsto> name]"

text \<open>
  The last \<open>try\<close> block of \<open>authenticate\<close> (identity construction, token issuance,
  session persistence); an exception of any step leaves it as \<open>Inl\<close>.
\<close>

definition build_identity ::
  "backend \<Rightarrow> request \<Rightarrow> string option \<Rightarrow> pydict \<Rightarrow> jvalue \<Rightarrow> jvalue \<Rightarrow> jvalue \<Rightarrow> jvalue
     \<Rightarrow> exn + pydict" where
  "build_identity self request tenant data name username grants programs =
     (let ident = name;
          user = user_dict self tenant name username grants programs;
          userdata = data(session_key_property self \<mapsto> ident)
      in case create_user self userdata of
           Inl err \<Rightarrow> Inl err
         | Inr usr0 \<Rightarrow>
             (let usr1 = usr0\<lparr>attributes := (attributes usr0)(''id'' \<mapsto> ident)\<rparr>;
                  usr2 = usr1\<lparr>attributes := (attributes usr1)(username_attribute self \<mapsto> ident)\<rparr>;
                  usr3 = usr2\<lparr>attributes := (attributes usr2)(''programs'' \<mapsto> programs)\<rparr>;
                  usr4 = usr3\<lparr>attributes := (attributes usr3)
                           (''tenant'' \<mapsto> (case tenant of None \<Rightarrow> JNone | Some t \<Rightarrow> JStr t))\<rparr>
              in case create_jwt self user of
                   Inl err \<Rightarrow> Inl err
                 | Inr token \<Rightarrow>
                     (let usr5 = usr4\<lparr>attributes := (attributes usr4)(''access_token'' \<mapsto> JStr token)\<rparr>
                      in case remember self request ident userdata usr5 of
                           Some err \<Rightarrow> Inl err
                         | None \<Rightarrow> Inr (user(''token'' \<mapsto> JStr (str_opt tenant @ '':'' @ token))))))"

definition authenticate :: "backend \<Rightarrow> request \<Rightarrow> exn + auth_result" where
  "authenticate self request =
     (case get_payload self request of
        None \<Rightarrow>
          Inl (AuthException (str_exn (py_repr self)
                 (TypeError ''cannot unpack non-iterable NoneType object'')) 400)
      | Some (tenant, token) \<Rightarrow>
     (case token of
        None \<Rightarrow> Inl (InvalidAuth ''Invalid Credentials'' 401)
      | Some tok \<Rightarrow>
          if tok = [] then Inl (InvalidAuth ''Invalid Credentials'' 401)
          else
     (case jwt_decode self tok of
        Inl err \<Rightarrow> Inl err
      | Inr payload \<Rightarrow>
     (case check_token_info request tenant payload of
        Inl err \<Rightarrow> Inl err
      | Inr None \<Rightarrow> Inl (InvalidAuth (''Invalid Session: '' @ tok) 401)
      | Inr (Some data) \<Rightarrow>
     (case data ''name'' of
        None \<Rightarrow> Inl (InvalidAuth (''Missing attributes for Partner Token: ''
                        @ str_exn (py_repr self) (KeyError ''name'')) 401)
      | Some u \<Rightarrow>
     (case data ''partner'' of
        None \<Rightarrow> Inl (InvalidAuth (''Missing attributes for Partner Token: ''
                        @ str_exn (py_repr self) (KeyError ''partner'')) 401)
      | Some username \<Rightarrow>
     (case data ''grants'' of
        None \<Rightarrow> Inl (InvalidAuth (''Missing attributes for Partner Token: ''
                        @ str_exn (py_repr self) (KeyError ''grants'')) 401)
      | Some grants \<Rightarrow>
     (case data ''programs'' of
        None \<Rightarrow> Inl (InvalidAuth (''Missing attributes for Partner Token: ''
                        @ str_exn (py_repr self) (KeyError ''programs'')) 401)
      | Some programs \<Rightarrow>
     (case build_identity self request tenant data u username grants programs of
        Inl err \<Rightarrow> Inr RetFalse
      | Inr result \<Rightarrow> Inr (RetDict result))))))))))"

text \<open>
  The \<open>try\<close> block of the middleware: decode the token, look the key up, open the
  session and mark the request. \<open>Inl\<close> is the exception that reaches the \<open>except\<close>
  clauses, \<open>Inr\<close> the request as the block leaves it.
\<close>

definition middleware_try :: "backend \<Rightarrow> request \<Rightarrow> string option \<Rightarrow> string \<Rightarrow> exn + request" where
  "middleware_try self request tenant jwt_token =
     (case jwt_decode self jwt_token of
        Inl err \<Rightarrow> Inl err
      | Inr payload \<Rightarrow>
     (case check_token_info request tenant payload of
        Inl err \<Rightarrow> Inl err
      | Inr None \<Rightarrow> Inl (HTTPForbidden ''API Key Not Authorized'')
      | Inr (Some result) \<Rightarrow>
     (case payload ''name'' of
        None \<Rightarrow> Inl (KeyError ''name'')
      | Some name \<Rightarrow>
     (let request1 = request\<lparr>items := (items request)(session_key_property self \<mapsto> name)\<rparr>
      in case get_session self request1 payload of
        Inl err \<Rightarrow> Inl err
      | Inr session0 \<Rightarrow>
     (case result ''grants'' of
        None \<Rightarrow> Inl (KeyError ''grants'')
      | Some grants \<Rightarrow>
     (case result ''partner'' of
        None \<Rightarrow> Inl (KeyError ''partner'')
      | Some partner \<Rightarrow>
     (let session1 = session0\<lparr>session_data := (session_data session0)
                        (''grants'' \<mapsto> grants, ''partner'' \<mapsto> partner,
                         ''tenant'' \<mapsto> (case tenant of None \<Rightarrow> JNone | Some t \<Rightarrow> JStr t))\<rparr>;
          request2 = request1\<lparr>req_session := Some session1\<rparr>;
          request3 = (case session_objects session1 ''user'' of
                        None \<Rightarrow> request2
                      | Some u \<Rightarrow> request2\<lparr>user := Some (u\<lparr>is_authenticated := True\<rparr>)\<rparr>)
      in Inr (request3\<lparr>items := (items request3)(''authenticated'' \<mapsto> JBool True)\<rparr>))))))))"

text \<open>The \<open>except\<close> clauses of the middleware, in their order.\<close>

fun middleware_except :: "backend \<Rightarrow> exn \<Rightarrow> exn" where
  "middleware_except self (ExpiredSignatureError m) =
     HTTPForbidden (''TokenAuth: token expired: '' @ m)"
| "middleware_except self (InvalidSignatureError m) =
     HTTPForbidden (''TokenAuth: Invalid or missing Credentials: ''
       @ repr_exn (py_repr self) (InvalidSignatureError m))"
| "middleware_except self (DecodeError m) =
     HTTPForbidden (''TokenAuth: Invalid authorization token: ''
       @ repr_exn (py_repr self) (DecodeError m))"
| "middleware_except self (InvalidTokenError m) =
     HTTPForbidden (''TokenAuth: Invalid authorization token: ''
       @ repr_exn (py_repr self) (InvalidTokenError m))"
| "middleware_except self err =
     HTTPClientError (''Error on TokenAuth Middleware: '' @ str_exn (py_repr self) err)"

text \<open>The middleware from the call of \<open>get_payload\<close> on.\<close>

definition middleware_token :: "backend \<Rightarrow> (request \<Rightarrow> exn + 'r) \<Rightarrow> request \<Rightarrow> exn + 'r" where
  "middleware_token self handler request =
     (case get_payload self request of
        None \<Rightarrow> Inl (TypeError ''cannot unpack non-iterable NoneType object'')
      | Some (tenant, jwt_token) \<Rightarrow>
     (case jwt_token of
        None \<Rightarrow> handler request
      | Some tok \<Rightarrow>
          if tok = [] then handler request
          else (case middleware_try self request tenant tok of
                  Inl err \<Rightarrow> Inl (middleware_except self err)
                | Inr request' \<Rightarrow> handler request')))"

text \<open>
  The middleware. \<open>request.user = None\<close> is its first statement; the handler call for
  an authenticated request stands inside \<open>try ... except KeyError: pass\<close>, so a
  \<open>KeyError\<close> of the handler falls through to the token check.
\<close>

definition auth_middleware :: "backend \<Rightarrow> (request \<Rightarrow> exn + 'r) \<Rightarrow> request \<Rightarrow> exn + 'r" where
  "auth_middleware self handler request0 =
     (let request = request0\<lparr>user := None\<rparr>
      in if items request ''authenticated'' = Some (JBool True)
         then (case handler request of
                 Inl (KeyError k) \<Rightarrow> middleware_token self handler request
               | res \<Rightarrow> res)
         else middleware_token self handler request)"

section \<open>The ADFS backend (backends/adfs.py)\<close>

subsection \<open>Standard-library functions the backend calls\<close>

text \<open>\<open>sep.join(parts)\<close>.\<close>

fun join :: "string \<Rightarrow> string list \<Rightarrow> string" where
  "join sep [] = []"
| "join sep [x] = x"
| "join sep (x # y # ys) = x @ sep @ join sep (y # ys)"

text \<open>
  \<open>base64.urlsafe_b64encode\<close>: three bytes become four characters of the URL-safe
  alphabet; a last group of one or two bytes is padded with \<open>=\<close>.
\<close>

definition b64_alphabet :: string where
  "b64_alphabet = ''ABCDEFGHIJKLMNOPQRSTUVWXYZabcdefghijklmnopqrstuvwxyz0123456789-_''"

fun urlsafe_b64encode :: "string \<Rightarrow> string" where
  "urlsafe_b64encode [] = []"
| "urlsafe_b64encode [a] =
     (let n = (of_char a :: nat) * 16
      in [b64_alphabet ! (n div 64), b64_alphabet ! (n mod 64), CHR ''='', CHR ''=''])"
| "urlsafe_b64encode [a, b] =
     (let n = ((of_char a :: nat) * 256 + of_char b) * 4
      in [b64_alphabet ! (n div 4096), b64_alphabet ! (n div 64 mod 64),
          b64_alphabet ! (n mod 64), CHR ''=''])"
| "urlsafe_b64encode (a # b # c # rest) =
     (let n = (of_char a :: nat) * 65536 + of_char b * 256 + of_char c
      in [b64_alphabet ! (n div 262144), b64_alphabet ! (n div 4096 mod 64),
          b64_alphabet ! (n div 64 mod 64), b64_alphabet ! (n mod 64)]
         @ urlsafe_b64encode rest)"

text \<open>
  The decoding the properties speak of: the strict decoder of RFC 4648 for the URL-safe
  alphabet, \<open>None\<close> on a character outside the alphabet or on wrong padding.
\<close>

fun index_of :: "'a \<Rightarrow> 'a list \<Rightarrow> nat option" where
  "index_of x [] = None"
| "index_of x (y # ys) = (if x = y then Some 0 else map_option Suc (index_of x ys))"

definition b64_index :: "char \<Rightarrow> nat option" where
  "b64_index c = index_of c b64_alphabet"

fun urlsafe_b64decode :: "string \<Rightarrow> string option" where
  "urlsafe_b64decode [] = Some []"
| "urlsafe_b64decode (c1 # c2 # c3 # c4 # rest) =
     (if rest = [] \<and> c4 = CHR ''='' then
        (if c3 = CHR ''='' then
           (case (b64_index c1, b64_index c2) of
              (Some i, Some j) \<Rightarrow> Some [char_of ((i * 64 + j) div 16)]
            | _ \<Rightarrow> None)
         else
           (case (b64_index c1, b64_index c2, b64_index c3) of
              (Some i, Some j, Some k) \<Rightarrow>
                (let m = (i * 4096 + j * 64 + k) div 4
                 in Some [char_of (m div 256), char_of (m mod 256)])
            | _ \<Rightarrow> None))
      else
        (case (b64_index c1, b64_index c2, b64_index c3, b64_index c4) of
           (Some i, Some j, Some k, Some l) \<Rightarrow>
             (let m = i * 262144 + j * 4096 + k * 64 + l
              in map_option
                   (\<lambda>bs. char_of (m div 65536) # char_of (m div 256 mod 256) # char_of (m mod 256) # bs)
                   (urlsafe_b64decode rest))
         | _ \<Rightarrow> None))"
| "urlsafe_b64decode cs = None"

text \<open>
  \<open>urllib.parse.quote\<close>, \<open>quote_plus\<close> and \<open>urlencode\<close> (which
  \<open>requests.compat.urlencode\<close> is) on the UTF-8 bytes of their arguments.
\<close>

definition always_safe :: string where
  "always_safe = ''ABCDEFGHIJKLMNOPQRSTUVWXYZabcdefghijklmnopqrstuvwxyz0123456789_.-~''"

definition hex_upper :: string where
  "hex_upper = ''0123456789ABCDEF''"

definition quoter :: "string \<Rightarrow> char \<Rightarrow> string" where
  "quoter safe c =
     (if c \<in> set (always_safe @ safe) then [c]
      else [CHR ''%'', hex_upper ! ((of_char c :: nat) div 16), hex_upper ! ((of_char c :: nat) mod 16)])"

definition quote :: "string \<Rightarrow> string \<Rightarrow> string" where
  "quote s safe = concat (map (quoter safe) s)"

definition replace_char :: "char \<Rightarrow> char \<Rightarrow> string \<Rightarrow> string" where
  "replace_char old new s = map (\<lambda>c. if c = old then new else c) s"

definition quote_plus :: "string \<Rightarrow> string" where
  "quote_plus s =
     (if CHR '' '' \<notin> set s then quote s []
      else replace_char CHR '' '' CHR ''+'' (quote s '' ''))"

definition urlencode :: "(string \<times> string) list \<Rightarrow> string" where
  "urlencode query = join ''&'' (map (\<lambda>(k, v). quote_plus k @ ''='' @ quote_plus v) query)"

text \<open>
  The reading of a query string, \<open>urllib.parse.parse_qsl\<close> with
  \<open>keep_blank_values=True\<close>, on bytes: it is how the properties below say that a URL
  contains a parameter.
\<close>

definition hexval :: "char \<Rightarrow> nat option" where
  "hexval c =
     (case index_of c hex_upper of
        Some n \<Rightarrow> Some n
      | None \<Rightarrow> map_option (\<lambda>n. n + 10) (index_of c ''abcdef''))"

fun unquote :: "string \<Rightarrow> string" where
  "unquote [] = []"
| "unquote (c # cs) =
     (if c = CHR ''%'' then
        (case cs of
           h1 # h2 # rest \<Rightarrow>
             (case (hexval h1, hexval h2) of
                (Some a, Some b) \<Rightarrow> char_of (a * 16 + b) # unquote rest
              | _ \<Rightarrow> c # unquote cs)
         | _ \<Rightarrow> c # unquote cs)
      else c # unquote cs)"

definition unquote_plus :: "string \<Rightarrow> string" where
  "unquote_plus s = unquote (replace_char CHR ''+'' CHR '' '' s)"

definition parse_qsl :: "string \<Rightarrow> (string \<times> string) list" where
  "parse_qsl qs =
     concat (map (\<lambda>name_value.
                    if name_value = [] then []
                    else (case split_first CHR ''='' name_value of
                            [n, v] \<Rightarrow> [(unquote_plus n, unquote_plus v)]
                          | _ \<Rightarrow> [(unquote_plus name_value, [])]))
                 (split_all CHR ''&'' qs))"

text \<open>\<open>dict(items)\<close>: a key keeps its first position and takes its last value.\<close>

definition dict_of_items :: "('k \<times> 'v) list \<Rightarrow> ('k \<times> 'v) list" where
  "dict_of_items kvs = foldl (\<lambda>d (k, v). AList.update k v d) [] kvs"

subsection \<open>Configuration, backend object and collaborators\<close>

text \<open>
  The constants of \<open>navigator_auth.conf\<close> that the backend reads. A constant that goes
  into a query string is held as the text \<open>str()\<close> makes of it, which is what
  \<open>urlencode\<close> quotes.
\<close>

record conf =
  ADFS_SERVER :: string
  ADFS_CLIENT_ID :: string
  ADFS_TENANT_ID :: "string option"
  ADFS_DEFAULT_RESOURCE :: string
  ADFS_SCOPES :: string
  ADFS_CALLBACK_REDIRECT_URL :: "string option"
  AZURE_AD_SERVER :: string

record adfs =
  server :: string
  tenant_id :: string
  discovery_oid_uri :: string
  authorize_uri :: string
  token_uri :: string
  userinfo_uri :: string
  redirect_uri :: string
  state :: "string option"

record web_request =
  rel_url_query :: "(string \<times> string) list"
  host :: string

datatype response =
    Redirect string
  | HomeRedirect "jvalue option" string

text \<open>The calls to collaborators that \<open>auth_callback\<close> makes, in the order made.\<close>

datatype event =
    EvPost string "(string \<times> string) list" "(string \<times> string) list"
  | EvGetPublicKey string
  | EvJwtDecode string
  | EvGetUserinfo string
  | EvBuildUserInfo
  | EvValidateUserInfo
  | EvHomeRedirect

text \<open>
  Methods inherited from \<open>ExternalAuth\<close>, \<open>jwksutils.get_public_key\<close>, PyJWT and the
  built-ins \<open>str.format\<close> and \<open>repr\<close> of a dictionary are parameters:
  \<open>str_format t d s\<close> is \<open>t.format(domain=d, service=s)\<close>.
\<close>

record external =
  get_domain :: "web_request \<Rightarrow> string"
  str_format :: "string \<Rightarrow> string \<Rightarrow> string \<Rightarrow> exn + string"
  get_finish_redirect_url :: "web_request \<Rightarrow> exn option"
  repr_dict :: "(string \<times> string) list \<Rightarrow> string"
  ext_repr :: "string \<Rightarrow> string"
  post :: "string \<Rightarrow> (string \<times> string) list \<Rightarrow> (string \<times> string) list \<Rightarrow> exn + (string \<rightharpoonup> string)"
  get_public_key :: "string \<Rightarrow> string \<Rightarrow> string \<Rightarrow> exn + string"
  jwt_decode_rs :: "string \<Rightarrow> string \<Rightarrow> exn + pydict"
  get_userinfo :: "string \<Rightarrow> string \<Rightarrow> string \<Rightarrow> exn + pydict"
  build_user_info :: "pydict \<Rightarrow> string \<Rightarrow> exn + (pydict \<times> jvalue)"
  validate_user_info :: "web_request \<Rightarrow> jvalue \<Rightarrow> pydict \<Rightarrow> string \<Rightarrow> exn + pydict option"

definition service_name :: string where
  "service_name = ''adfs''"

text \<open>
  \<open>configure\<close>, as far as it sets the attributes read later. The registration of the
  routes is left out; without \<open>ADFS_CALLBACK_REDIRECT_URL\<close> the inherited
  \<open>redirect_uri\<close> stays.
\<close>

definition configure :: "conf \<Rightarrow> adfs \<Rightarrow> adfs" where
  "configure cf self =
     (let self1 =
            (case ADFS_TENANT_ID cf of
               Some t \<Rightarrow>
                 if t \<noteq> [] then
                   self\<lparr>server := AZURE_AD_SERVER cf, tenant_id := t,
                        discovery_oid_uri := ''https://login.microsoftonline.com/'' @ t
                            @ ''/.well-known/openid-configuration''\<rparr>
                 else
                   self\<lparr>server := ADFS_SERVER cf, tenant_id := ''adfs'',
                        discovery_oid_uri := ''https://'' @ ADFS_SERVER cf
                            @ ''/adfs/.well-known/openid-configuration''\<rparr>
             | None \<Rightarrow>
                 self\<lparr>server := ADFS_SERVER cf, tenant_id := ''adfs'',
                      discovery_oid_uri := ''https://'' @ ADFS_SERVER cf
                          @ ''/adfs/.well-known/openid-configuration''\<rparr>);
          self2 = self1\<lparr>
            authorize_uri := ''https://'' @ server self1 @ ''/'' @ tenant_id self1 @ ''/oauth2/authorize/'',
            token_uri := ''https://'' @ server self1 @ ''/'' @ tenant_id self1 @ ''/oauth2/token'',
            userinfo_uri := ''https://'' @ server self1 @ ''/'' @ tenant_id self1 @ ''/userinfo''\<rparr>
      in case ADFS_CALLBACK_REDIRECT_URL cf of
           Some callback \<Rightarrow> self2\<lparr>redirect_uri := ''{domain}'' @ callback\<rparr>
         | None \<Rightarrow> self2)"

text \<open>
  Modelled from the spec: \<open>ExternalAuth.redirect\<close> is not among the sources; the
  spec says that this step "emits an HTTP redirect" to the authorize URL.
\<close>

definition redirect :: "string \<Rightarrow> response" where
  "redirect uri = Redirect uri"

text \<open>
  \<open>ADFSAuth.authenticate\<close>. The formatting of \<open>redirect_uri\<close> and
  \<open>get_finish_redirect_url\<close> stand before the \<open>try\<close>; nothing inside the \<open>try\<close>
  raises on strings. The result is the response or exception, and the backend object
  with its new \<open>redirect_uri\<close> and \<open>state\<close>.
\<close>

definition authorize_params :: "conf \<Rightarrow> adfs \<Rightarrow> (string \<times> string) list" where
  "authorize_params cf self =
     [(''client_id'', ADFS_CLIENT_ID cf),
      (''response_type'', ''code''),
      (''redirect_uri'', redirect_uri self),
      (''resource'', ADFS_DEFAULT_RESOURCE cf),
      (''response_mode'', ''query''),
      (''state'', str_opt (state self)),
      (''scope'', ADFS_SCOPES cf)]"

definition adfs_authenticate ::
  "conf \<Rightarrow> external \<Rightarrow> adfs \<Rightarrow> web_request \<Rightarrow> (exn + response) \<times> adfs" where
  "adfs_authenticate cf ext self request =
     (let domain_url = get_domain ext request
      in case str_format ext (redirect_uri self) domain_url service_name of
           Inl err \<Rightarrow> (Inl err, self)
         | Inr uri \<Rightarrow>
             (let self1 = self\<lparr>redirect_uri := uri\<rparr>
              in case get_finish_redirect_url ext request of
                   Some err \<Rightarrow> (Inl err, self1)
                 | None \<Rightarrow>
                     (let self2 = self1\<lparr>state := Some (urlsafe_b64encode (redirect_uri self1))\<rparr>;
                          query_params = authorize_params cf self2;
                          params = urlencode query_params;
                          login_url = authorize_uri self2 @ ''?'' @ params
                      in (Inr (redirect login_url), self2))))"

text \<open>
  \<open>auth_callback\<close>, one definition for each \<open>try\<close> block. A block gives the exception
  that its \<open>except\<close> clause raises, or its values, and the calls made.
\<close>

definition callback_code :: "external \<Rightarrow> web_request \<Rightarrow> exn + string" where
  "callback_code ext request =
     (let auth_response = dict_of_items (rel_url_query request);
          body = (if map_of auth_response ''error'' \<noteq> None
                  then Inl (HTTPForbidden (''ADFS: Unable to Authenticate: ''
                              @ repr_dict ext auth_response))
                  else (case map_of auth_response ''code'' of
                          None \<Rightarrow> Inl (KeyError ''code'')
                        | Some authorization_code \<Rightarrow> Inr authorization_code))
      in case body of
           Inl err \<Rightarrow> Inl (HTTPForbidden (''ADFS: Invalid Callback response: ''
                              @ str_exn (ext_repr ext) err @ '': '' @ repr_dict ext auth_response))
         | Inr authorization_code \<Rightarrow> Inr authorization_code)"

definition token_params :: "conf \<Rightarrow> string \<Rightarrow> (string \<times> string) list" where
  "token_params cf authorization_code =
     [(''code'', authorization_code),
      (''client_id'', ADFS_CLIENT_ID cf),
      (''grant_type'', ''authorization_code''),
      (''redirect_uri'', ''https://api.dev.navigator.mobileinsight.com/auth/adfs/callback''),
      (''scope'', ADFS_SCOPES cf)]"

definition callback_exchange ::
  "conf \<Rightarrow> external \<Rightarrow> adfs \<Rightarrow> string \<Rightarrow> (exn + string \<times> string) \<times> event list" where
  "callback_exchange cf ext self authorization_code =
     (let query_params = token_params cf authorization_code;
          hdrs = [(''Content-Type'', ''application/x-www-form-urlencoded'')];
          body =
            (case post ext (token_uri self) query_params hdrs of
               Inl err \<Rightarrow> Inl err
             | Inr exchange \<Rightarrow>
                 if exchange ''error'' \<noteq> None then
                   Inl (HTTPForbidden (''ADFS '' @ str_opt (exchange ''error'') @ '': ''
                          @ str_opt (exchange ''error_description'') @ [CHR 0xC2, CHR 0xA1]))
                 else (case exchange ''access_token'' of
                         None \<Rightarrow> Inl (KeyError ''access_token'')
                       | Some access_token \<Rightarrow>
                           (case exchange ''token_type'' of
                              None \<Rightarrow> Inl (KeyError ''token_type'')
                            | Some token_type \<Rightarrow> Inr (access_token, token_type))))
      in (case body of
            Inl err \<Rightarrow> Inl (HTTPForbidden (''Invalid Response from Token Server ''
                               @ str_exn (ext_repr ext) err @ ''.''))
          | Inr tokens \<Rightarrow> Inr tokens,
          [EvPost (token_uri self) query_params hdrs]))"

definition callback_decode ::
  "conf \<Rightarrow> external \<Rightarrow> adfs \<Rightarrow> string \<Rightarrow> (exn + pydict) \<times> event list" where
  "callback_decode cf ext self access_token =
     (case get_public_key ext access_token (tenant_id self) (discovery_oid_uri self) of
        Inl e \<Rightarrow>
          (Inl (HTTPForbidden (''Unable to decode JWT token '' @ str_exn (ext_repr ext) e @ ''.'')),
           [EvGetPublicKey access_token])
      | Inr public_key \<Rightarrow>
          (case jwt_decode_rs ext access_token public_key of
             Inl e \<Rightarrow>
               (Inl (HTTPForbidden (''Unable to decode JWT token '' @ str_exn (ext_repr ext) e @ ''.'')),
                [EvGetPublicKey access_token, EvJwtDecode access_token])
           | Inr data \<Rightarrow> (Inr data, [EvGetPublicKey access_token, EvJwtDecode access_token])))"

definition callback_user ::
  "external \<Rightarrow> adfs \<Rightarrow> web_request \<Rightarrow> pydict \<Rightarrow> string \<Rightarrow> string
     \<Rightarrow> (exn + pydict option) \<times> event list" where
  "callback_user ext self request data access_token token_type =
     (let data1 = (case get_userinfo ext (userinfo_uri self) access_token token_type of
                     Inl err \<Rightarrow> data
                   | Inr info \<Rightarrow> info)
      in case build_user_info ext data1 access_token of
           Inl err \<Rightarrow>
             (Inl (HTTPForbidden (''ADFS: Error with User Information: '' @ str_exn (ext_repr ext) err)),
              [EvGetUserinfo access_token, EvBuildUserInfo])
         | Inr (userdata, uid) \<Rightarrow>
             (case validate_user_info ext request uid userdata access_token of
                Inl err \<Rightarrow>
                  (Inl (HTTPForbidden (''ADFS: Error with User Information: ''
                          @ str_exn (ext_repr ext) err)),
                   [EvGetUserinfo access_token, EvBuildUserInfo, EvValidateUserInfo])
              | Inr data2 \<Rightarrow>
                  (Inr data2, [EvGetUserinfo access_token, EvBuildUserInfo, EvValidateUserInfo])))"

text \<open>
  Modelled from the spec: \<open>ExternalAuth.home_redirect\<close> is not among the sources; the
  spec says that the flow redirects "to the original target carrying \<open>token\<close> and
  \<open>token_type=Bearer\<close>".
\<close>

definition home_redirect :: "web_request \<Rightarrow> jvalue option \<Rightarrow> string \<Rightarrow> response" where
  "home_redirect request token token_type = HomeRedirect token token_type"

definition auth_callback ::
  "conf \<Rightarrow> external \<Rightarrow> adfs \<Rightarrow> web_request \<Rightarrow> (exn + response) \<times> adfs \<times> event list" where
  "auth_callback cf ext self request =
     (let domain_url = get_domain ext request
      in case str_format ext (redirect_uri self) domain_url service_name of
           Inl err \<Rightarrow> (Inl err, self, [])
         | Inr uri \<Rightarrow>
     (let self1 = self\<lparr>redirect_uri := uri\<rparr>
      in case callback_code ext request of
           Inl err \<Rightarrow> (Inl err, self1, [])
         | Inr authorization_code \<Rightarrow>
     (case callback_exchange cf ext self1 authorization_code of
        (Inl err, evs1) \<Rightarrow> (Inl err, self1, evs1)
      | (Inr (access_token, token_type), evs1) \<Rightarrow>
     (case callback_decode cf ext self1 access_token of
        (Inl err, evs2) \<Rightarrow> (Inl err, self1, evs1 @ evs2)
      | (Inr data, evs2) \<Rightarrow>
     (case callback_user ext self1 request data access_token token_type of
        (Inl err, evs3) \<Rightarrow> (Inl err, self1, evs1 @ evs2 @ evs3)
      | (Inr data2, evs3) \<Rightarrow>
          (let token = (case data2 of None \<Rightarrow> None | Some d \<Rightarrow> d ''token'')
           in (Inr (home_redirect request token ''Bearer''), self1,
               evs1 @ evs2 @ evs3 @ [EvHomeRedirect])))))))"

section \<open>Notions of the properties\<close>


subsection \<open>Tenant tokens\<close>






section \<open>Concrete inputs\<close>

text \<open>
  A pool with one enabled key of partner \<open>acme-inc\<close> for the program \<open>acme\<close>, a
  backend with the scheme \<open>Bearer\<close> whose PyJWT accepts two tokens of that key, and a
  request carrying a given \<open>Authorization\<close> header.
\<close>

definition sample_pool :: pool where
  "sample_pool =
     \<lparr>acquire_raises = None, queryrow_raises = None, queryrow_error = None,
      partner_keys = [\<lparr>pk_name = ''key1'', pk_partner = ''acme-inc'', pk_grants = [''read''],
                       pk_programs = [''acme''], pk_enabled = True, pk_revoked = False\<rparr>]\<rparr>"

definition sample_backend :: backend where
  "sample_backend =
     \<lparr>scheme = ''Bearer'', session_key_property = ''session_id'',
      username_attribute = ''username'', AUTH_TOKEN_ISSUER = ''urn:Navigator'',
      py_repr = (\<lambda>s. [CHR 0x27] @ s @ [CHR 0x27]),
      jwt_decode = (\<lambda>t. if t = ''eyJ.old.sig'' \<or> t = ''eyJ.new.sig''
                         then Inr [''name'' \<mapsto> JStr ''key1'', ''partner'' \<mapsto> JStr ''acme-inc'']
                         else Inl (DecodeError ''Not enough segments'')),
      jwt_encode = (\<lambda>p. if p ''name'' = Some (JStr ''key1'') \<and> p ''partner'' = Some (JStr ''acme-inc'')
                         then Inr ''eyJ.new.sig''
                         else Inl (TypeError ''Object is not JSON serializable'')),
      create_user = (\<lambda>d. Inr \<lparr>attributes = d, is_authenticated = False\<rparr>),
      remember = (\<lambda>r i d u. None),
      get_session = (\<lambda>r p. Inr \<lparr>session_data = p, session_objects = Map.empty\<rparr>)\<rparr>"

definition sample_request :: "string \<Rightarrow> request" where
  "sample_request h =
     \<lparr>headers = [''Authorization'' \<mapsto> h], app = [''authdb'' \<mapsto> sample_pool],
      items = Map.empty, user = None, req_session = None\<rparr>"




text \<open>
  An ADFS configuration with a callback path, the backend object \<open>configure\<close> makes of
  it, collaborators whose token endpoint rejects the code, and a callback request with a
  given query.
\<close>

definition sample_conf :: conf where
  "sample_conf =
     \<lparr>ADFS_SERVER = ''adfs.example.com'', ADFS_CLIENT_ID = ''client-1'', ADFS_TENANT_ID = None,
      ADFS_DEFAULT_RESOURCE = ''urn:api'', ADFS_SCOPES = ''openid profile'',
      ADFS_CALLBACK_REDIRECT_URL = Some ''/auth/adfs/callback'',
      AZURE_AD_SERVER = ''login.microsoftonline.com''\<rparr>"

definition sample_external :: external where
  "sample_external =
     \<lparr>get_domain = host,
      str_format = (\<lambda>t d s. if take 8 t = ''{domain}'' then Inr (d @ drop 8 t) else Inr t),
      get_finish_redirect_url = (\<lambda>r. None),
      repr_dict = (\<lambda>kvs. ''{'' @ join '', ''
                     (map (\<lambda>(k, v). [CHR 0x27] @ k @ [CHR 0x27] @ '': '' @ [CHR 0x27] @ v @ [CHR 0x27])
                        kvs) @ ''}''),
      ext_repr = (\<lambda>s. [CHR 0x27] @ s @ [CHR 0x27]),
      post = (\<lambda>uri data hdrs.
                Inr [''error'' \<mapsto> ''invalid_grant'', ''error_description'' \<mapsto> ''expired'']),
      get_public_key = (\<lambda>t tid uri. Inr ''key''),
      jwt_decode_rs = (\<lambda>t k. Inr Map.empty),
      get_userinfo = (\<lambda>u t tt. Inr Map.empty),
      build_user_info = (\<lambda>d t. Inr (d, JStr ''alice@example.com'')),
      validate_user_info = (\<lambda>r uid ud t. Inr (Some ud))\<rparr>"

definition sample_adfs :: adfs where
  "sample_adfs =
     configure sample_conf
       \<lparr>server = [], tenant_id = [], discovery_oid_uri = [], authorize_uri = [],
        token_uri = [], userinfo_uri = [], redirect_uri = [], state = None\<rparr>"

definition sample_web_request :: "(string \<times> string) list \<Rightarrow> web_request" where
  "sample_web_request q = \<lparr>rel_url_query = q, host = ''https://nav.io''\<rparr>"

section \<open>Properties of the API-token backend\<close>

subsection \<open>Splitting and stripping\<close>

lemma split_all_not_Nil: "split_all sep s \<noteq> []"
  by (induction s) (auto split: list.splits)

lemma split_all_no_sep: "sep \<notin> set s \<Longrightarrow> split_all sep s = [s]"
  by (induction s) auto

lemma length_split_all: "length (split_all sep s) = Suc (count_list s sep)"
  by (induction s) (auto split: list.splits simp: split_all_not_Nil)

lemma split_all_one_sep:
  "count_list s sep = 1 \<Longrightarrow>
   split_all sep s = [takeWhile (\<lambda>x. x \<noteq> sep) s, tl (dropWhile (\<lambda>x. x \<noteq> sep) s)]"
proof (induction s)
  case Nil
  then show ?case by simp
next
  case (Cons x xs)
  show ?case
  proof (cases "x = sep")
    case True
    with Cons.prems have "count_list xs sep = 0" by simp
    then have "sep \<notin> set xs" by (simp add: count_list_0_iff)
    with True show ?thesis by (simp add: split_all_no_sep)
  next
    case False
    with Cons show ?thesis by simp
  qed
qed



lemma split_first_header:
  "sep \<notin> set a \<Longrightarrow> split_first sep (a @ sep # b) = [a, b]"
  by (induction a) (auto simp: split_first_def)


lemmas strip_eval = strip_def lstrip_def rstrip_def ws_len_def py_whitespace_def strip_left.simps













subsection \<open>The credential in the header\<close>

lemma get_payload_header:
  assumes hdr: "headers request ''Authorization'' = Some h"
    and st: "strip h = scheme self @ '' '' @ cred"
    and sch: "CHR '' '' \<notin> set (scheme self)"
  shows "get_payload self request =
           Some (if count_list cred CHR '':'' = 1
                 then (Some (takeWhile (\<lambda>x. x \<noteq> CHR '':'') cred),
                       Some (tl (dropWhile (\<lambda>x. x \<noteq> CHR '':'') cred)))
                 else (None, Some cred))"
proof -
  have "split_first CHR '' '' (strip h) = [scheme self, cred]"
    using sch split_first_header [of "CHR '' ''" "scheme self" cred] by (simp add: st)
  then have gp: "get_payload self request =
      (case split_all CHR '':'' cred of
         [tenant, token] \<Rightarrow> Some (Some tenant, Some token)
       | _ \<Rightarrow> Some (None, Some cred))"
    using hdr by (simp add: get_payload_def)
  show ?thesis
  proof (cases "count_list cred CHR '':'' = 1")
    case True
    then show ?thesis using gp by (simp add: split_all_one_sep)
  next
    case False
    have "length (split_all CHR '':'' cred) \<noteq> 2"
      using False by (simp add: length_split_all)
    then have "(case split_all CHR '':'' cred of
         [tenant, token] \<Rightarrow> Some (Some tenant, Some token)
       | _ \<Rightarrow> Some (None, Some cred)) = Some (None, Some cred)"
      by (auto split: list.splits)
    with gp False show ?thesis by simp
  qed
qed


lemmas sample_defs = sample_backend_def sample_request_def sample_pool_def


text \<open>
  Claim C5, as the code has it. For an \<open>Authorization\<close> header that, stripped, is
  \<open><scheme> <credential>\<close> with the configured scheme, \<open>get_payload\<close> splits the
  credential at every \<open>:\<close> and takes the two parts as tenant and token only when there is
  exactly one \<open>:\<close>; with no \<open>:\<close> and with more than one the tenant is \<open>None\<close> and the
  whole credential is the token. So \<open>Bearer acme:eyJ...\<close> gives the tenant \<open>acme\<close> and
  the token \<open>eyJ...\<close>.
\<close>

theorem get_payload_split:
  assumes "headers request ''Authorization'' = Some h"
    and "strip h = scheme self @ '' '' @ cred"
    and "CHR '' '' \<notin> set (scheme self)"
  shows "get_payload self request =
           Some (if count_list cred CHR '':'' = 1
                 then (Some (takeWhile (\<lambda>x. x \<noteq> CHR '':'') cred),
                       Some (tl (dropWhile (\<lambda>x. x \<noteq> CHR '':'') cred)))
                 else (None, Some cred))"
  using assms by (rule get_payload_header)

theorem get_payload_split_witness:
  "get_payload sample_backend (sample_request ''Bearer acme:eyJ.old.sig'')
     = Some (Some ''acme'', Some ''eyJ.old.sig'')
   \<and> get_payload sample_backend (sample_request ''Bearer eyJ.old.sig'')
     = Some (None, Some ''eyJ.old.sig'')
   \<and> get_payload sample_backend (sample_request (''  Bearer acme:tok'' @ [CHR 0xC2, CHR 0xA0]))
     = Some (Some ''acme'', Some ''tok'')"
proof -
  have s: "scheme sample_backend = ''Bearer''" "CHR '' '' \<notin> set (scheme sample_backend)"
    by (simp_all add: sample_backend_def)
  have h: "headers (sample_request x) ''Authorization'' = Some x" for x
    by (simp add: sample_request_def)
  have st: "strip ''Bearer acme:eyJ.old.sig'' = scheme sample_backend @ '' '' @ ''acme:eyJ.old.sig''"
    "strip ''Bearer eyJ.old.sig'' = scheme sample_backend @ '' '' @ ''eyJ.old.sig''"
    "strip (''  Bearer acme:tok'' @ [CHR 0xC2, CHR 0xA0]) = scheme sample_backend @ '' '' @ ''acme:tok''"
    by (simp_all add: s strip_eval)
  show ?thesis
    using get_payload_split [OF h st(1) s(2)] get_payload_split [OF h st(2) s(2)]
      get_payload_split [OF h st(3) s(2)]
    by simp
qed

text \<open>
  The credential \<open>a:b:c\<close> is not split at its first \<open>:\<close>: it is the token as a whole.
\<close>

theorem get_payload_first_colon_counterexample:
  "get_payload sample_backend (sample_request ''Bearer a:b:c'') = Some (None, Some ''a:b:c'')
   \<and> get_payload sample_backend (sample_request ''Bearer a:b:c'') \<noteq> Some (Some ''a'', Some ''b:c'')"
  by (simp add: get_payload_def sample_defs strip_eval split_first_def)

subsection \<open>The middleware\<close>

lemma middleware_token_unpack:
  "get_payload self request = None \<Longrightarrow>
   middleware_token self handler request = Inl (TypeError ''cannot unpack non-iterable NoneType object'')"
  by (simp add: middleware_token_def)

lemma auth_middleware_unpack:
  assumes "items request ''authenticated'' \<noteq> Some (JBool True)"
    and "get_payload self (request\<lparr>user := None\<rparr>) = None"
  shows "auth_middleware self handler request
           = Inl (TypeError ''cannot unpack non-iterable NoneType object'')"
  using assms by (simp add: auth_middleware_def middleware_token_unpack)

text \<open>
  Claim C4 asks that the middleware either calls the handler or raises an HTTP
  rejection. With a header of another scheme, or one without a credential,
  \<open>get_payload\<close> returns \<open>None\<close> and the unpacking in the middleware raises a
  \<open>TypeError\<close>, which is no HTTP exception; \<open>authenticate\<close> wraps the same unpacking in
  a \<open>try\<close>.
\<close>

theorem auth_middleware_TypeError:
  "auth_middleware sample_backend handler (sample_request ''Basic abc'')
     = Inl (TypeError ''cannot unpack non-iterable NoneType object'')
   \<and> auth_middleware sample_backend handler (sample_request ''Bearer'')
     = Inl (TypeError ''cannot unpack non-iterable NoneType object'')
   \<and> \<not> is_http_exception (TypeError ''cannot unpack non-iterable NoneType object'')"
  by (simp add: auth_middleware_def middleware_token_def get_payload_def sample_defs
        strip_eval split_first_def)

lemma auth_middleware_authenticated:
  assumes "items request ''authenticated'' = Some (JBool True)"
    and "\<forall>k. handler (request\<lparr>user := None\<rparr>) \<noteq> Inl (KeyError k)"
  shows "auth_middleware self handler request = handler (request\<lparr>user := None\<rparr>)"
  using assms
  by (auto simp: auth_middleware_def Let_def split: sum.splits exn.splits)

text \<open>
  Claim C9 asks that a request already flagged authenticated reaches the handler
  unchanged. The middleware sets \<open>request.user = None\<close> before it looks at the flag: a
  handler that returns the user it sees returns \<open>None\<close>, whoever the user was.
\<close>

theorem auth_middleware_resets_user:
  "auth_middleware self (\<lambda>r. Inr (user r))
      ((sample_request h)\<lparr>items := [''authenticated'' \<mapsto> JBool True], user := Some u\<rparr>)
     = Inr None"
  by (simp add: auth_middleware_def sample_request_def)

subsection \<open>The key lookup\<close>

lemma find_where_clause:
  "find (where_clause n p t) rows = Some r \<Longrightarrow> r \<in> set rows \<and> where_clause n p t r"
  by (auto simp: find_Some_iff)

lemma check_token_info_Some:
  assumes "check_token_info request tenant payload = Inr (Some data)"
  shows "\<exists>pool r name partner. app request ''authdb'' = Some pool \<and> r \<in> set (partner_keys pool)
            \<and> payload ''name'' = Some name \<and> payload ''partner'' = Some partner
            \<and> where_clause name partner tenant r \<and> data = select_row r"
  using assms
  by (auto simp: check_token_info_def queryrow_def split: option.splits sum.splits if_splits
           dest: find_where_clause)



lemma select_row_simps:
  "select_row r ''name'' = Some (JStr (pk_name r))"
  "select_row r ''partner'' = Some (JStr (pk_partner r))"
  "select_row r ''grants'' = Some (JList (pk_grants r))"
  "select_row r ''programs'' = Some (JList (pk_programs r))"
  by (simp_all add: select_row_def)



subsection \<open>Identity construction\<close>

lemma build_identity_Inl_iff:
  "(\<exists>err. build_identity self request tenant data name username grants programs = Inl err) \<longleftrightarrow>
   (case create_user self (data(session_key_property self \<mapsto> name)) of
      Inl err \<Rightarrow> True
    | Inr usr0 \<Rightarrow>
       (case create_jwt self (user_dict self tenant name username grants programs) of
          Inl err \<Rightarrow> True
        | Inr token \<Rightarrow>
            remember self request name (data(session_key_property self \<mapsto> name))
              (usr0\<lparr>attributes := (attributes usr0)
                 (''id'' \<mapsto> name, username_attribute self \<mapsto> name, ''programs'' \<mapsto> programs,
                  ''tenant'' \<mapsto> (case tenant of None \<Rightarrow> JNone | Some t \<Rightarrow> JStr t),
                  ''access_token'' \<mapsto> JStr token)\<rparr>) \<noteq> None))"
  by (auto simp: build_identity_def Let_def split: sum.splits option.splits)


text \<open>
  Claim C10. When the token decodes and the key lookup finds a row, and a later step
  (\<open>create_user\<close>, \<open>create_jwt\<close>, \<open>remember\<close>) raises, \<open>authenticate\<close> returns the
  value \<open>False\<close>: it raises nothing and returns no identity.
\<close>

theorem authenticate_returns_False:
  assumes "get_payload self request = Some (tenant, Some tok)" and "tok \<noteq> []"
    and "jwt_decode self tok = Inr payload"
    and "check_token_info request tenant payload = Inr (Some data)"
    and "build_identity self request tenant data (the (data ''name'')) (the (data ''partner''))
           (the (data ''grants'')) (the (data ''programs'')) = Inl err"
  shows "authenticate self request = Inr RetFalse"
proof -
  from assms(4) obtain r where "data = select_row r"
    using check_token_info_Some by blast
  with assms show ?thesis
    by (simp add: authenticate_def select_row_simps)
qed

theorem authenticate_returns_False_witness:
  "authenticate (sample_backend\<lparr>remember := (\<lambda>r i d u. Some (OtherError ''session store down''))\<rparr>)
     (sample_request ''Bearer acme:eyJ.old.sig'') = Inr RetFalse"
proof -
  let ?b = "sample_backend\<lparr>remember := (\<lambda>r i d u. Some (OtherError ''session store down''))\<rparr>"
  let ?r = "sample_request ''Bearer acme:eyJ.old.sig''"
  let ?p = "[''name'' \<mapsto> JStr ''key1'', ''partner'' \<mapsto> JStr ''acme-inc'']"
  let ?row = "\<lparr>pk_name = ''key1'', pk_partner = ''acme-inc'', pk_grants = [''read''],
                       pk_programs = [''acme''], pk_enabled = True, pk_revoked = False\<rparr>"
  have h1: "get_payload ?b ?r = Some (Some ''acme'', Some ''eyJ.old.sig'')"
    by (simp add: get_payload_def sample_defs strip_eval split_first_def)
  have h2: "''eyJ.old.sig'' \<noteq> []" by simp
  have h3: "jwt_decode ?b ''eyJ.old.sig'' = Inr ?p"
    by (simp add: sample_backend_def)
  have h4: "check_token_info ?r (Some ''acme'') ?p = Inr (Some (select_row ?row))"
    by (simp add: check_token_info_def queryrow_def where_clause_def sample_defs)
  have h5: "build_identity ?b ?r (Some ''acme'') (select_row ?row)
              (the (select_row ?row ''name'')) (the (select_row ?row ''partner''))
              (the (select_row ?row ''grants'')) (the (select_row ?row ''programs''))
            = Inl (OtherError ''session store down'')"
    by (simp add: build_identity_def create_jwt_def user_dict_def select_row_def sample_backend_def)
  show ?thesis
    using authenticate_returns_False [OF h1 h2 h3 h4 h5] .
qed

text \<open>
  Claim C6. Whenever \<open>authenticate\<close> returns an identity, the identity comes from a row
  of the table that is enabled, not revoked and lists the requested tenant among its
  programs; so a revoked row never authenticates.
\<close>

theorem authenticate_record_ok:
  assumes "authenticate self request = Inr (RetDict d)"
  shows "\<exists>pool r t. app request ''authdb'' = Some pool \<and> r \<in> set (partner_keys pool)
           \<and> pk_enabled r \<and> \<not> pk_revoked r \<and> t \<in> set (pk_programs r)
           \<and> d ''name'' = Some (JStr (pk_name r)) \<and> d ''partner'' = Some (JStr (pk_partner r))
           \<and> d ''grants'' = Some (JList (pk_grants r)) \<and> d ''programs'' = Some (JList (pk_programs r))
           \<and> d ''tenant'' = Some (JStr t)"
proof -
  from assms obtain tenant tok payload data where
    gp: "get_payload self request = Some (tenant, Some tok)" and
    cti: "check_token_info request tenant payload = Inr (Some data)" and
    bi: "build_identity self request tenant data (the (data ''name'')) (the (data ''partner''))
           (the (data ''grants'')) (the (data ''programs'')) = Inr d"
    by (auto simp: authenticate_def split: option.splits sum.splits if_splits)
  from cti obtain pool r name partner where
    r: "app request ''authdb'' = Some pool" "r \<in> set (partner_keys pool)"
       "where_clause name partner tenant r" "data = select_row r"
    using check_token_info_Some by blast
  from r(3) obtain t where t: "tenant = Some t" "t \<in> set (pk_programs r)"
      "pk_enabled r" "\<not> pk_revoked r"
    by (auto simp: where_clause_def split: option.splits)
  from bi r(4) t(1) have
    "d = (user_dict self (Some t) (JStr (pk_name r)) (JStr (pk_partner r))
            (JList (pk_grants r)) (JList (pk_programs r)))
          (''token'' \<mapsto> JStr (t @ '':'' @ (case create_jwt self (user_dict self (Some t) (JStr (pk_name r)) (JStr (pk_partner r))
            (JList (pk_grants r)) (JList (pk_programs r))) of Inr tk \<Rightarrow> tk | Inl e \<Rightarrow> [])))"
    by (auto simp: build_identity_def Let_def select_row_simps split: sum.splits option.splits)
  then have "d ''name'' = Some (JStr (pk_name r))" "d ''partner'' = Some (JStr (pk_partner r))"
    "d ''grants'' = Some (JList (pk_grants r))" "d ''programs'' = Some (JList (pk_programs r))"
    "d ''tenant'' = Some (JStr t)"
    by (simp_all add: user_dict_def)
  with r t show ?thesis by blast
qed

lemma authenticate_sample:
  "\<exists>d. authenticate sample_backend (sample_request ''Bearer acme:eyJ.old.sig'') = Inr (RetDict d)"
  by (simp add: authenticate_def get_payload_def strip_eval split_first_def
        check_token_info_def queryrow_def
        where_clause_def build_identity_def create_jwt_def user_dict_def select_row_def
        sample_defs)

theorem authenticate_record_ok_witness:
  "\<exists>d. authenticate sample_backend (sample_request ''Bearer acme:eyJ.old.sig'') = Inr (RetDict d)
     \<and> (\<exists>pool r t. app (sample_request ''Bearer acme:eyJ.old.sig'') ''authdb'' = Some pool
           \<and> r \<in> set (partner_keys pool)
           \<and> pk_enabled r \<and> \<not> pk_revoked r \<and> t \<in> set (pk_programs r)
           \<and> d ''name'' = Some (JStr (pk_name r)) \<and> d ''partner'' = Some (JStr (pk_partner r))
           \<and> d ''grants'' = Some (JList (pk_grants r)) \<and> d ''programs'' = Some (JList (pk_programs r))
           \<and> d ''tenant'' = Some (JStr t))"
proof -
  obtain d where d: "authenticate sample_backend (sample_request ''Bearer acme:eyJ.old.sig'') = Inr (RetDict d)"
    using authenticate_sample by blast
  from authenticate_record_ok [OF d] d show ?thesis by blast
qed

subsection \<open>Re-submitting the issued credential\<close>







section \<open>Properties of the ADFS backend\<close>

subsection \<open>Base64\<close>

lemma bytes3_split:
  fixes a b c :: nat
  assumes "a < 256" "b < 256" "c < 256"
  shows "(a * 65536 + b * 256 + c) div 65536 = a"
    and "(a * 65536 + b * 256 + c) div 256 mod 256 = b"
    and "(a * 65536 + b * 256 + c) mod 256 = c"
proof -
  have e: "a * 65536 + b * 256 + c = c + (a * 256 + b) * 256"
    by simp
  show "(a * 65536 + b * 256 + c) div 65536 = a"
    using assms by simp
  have "(a * 65536 + b * 256 + c) div 256 = a * 256 + b"
    using assms by simp
  then show "(a * 65536 + b * 256 + c) div 256 mod 256 = b"
    using assms by simp
  have "(c + (a * 256 + b) * 256) mod 256 = c mod 256"
    by (rule mod_mult_self1)
  then show "(a * 65536 + b * 256 + c) mod 256 = c"
    unfolding e using assms by simp
qed

lemma sextets_join:
  fixes n :: nat
  shows "n div 262144 * 262144 + n div 4096 mod 64 * 4096 + n div 64 mod 64 * 64 + n mod 64 = n"
proof -
  define q1 where "q1 = n div 64"
  define q2 where "q2 = q1 div 64"
  define q3 where "q3 = q2 div 64"
  have d2: "n div 4096 = q2"
    unfolding q2_def q1_def by (simp add: div_mult2_eq[symmetric])
  have d3: "n div 262144 = q3"
    unfolding q3_def q2_def q1_def by (simp add: div_mult2_eq[symmetric])
  have "n = q1 * 64 + n mod 64"
    unfolding q1_def by simp
  moreover have "q1 = q2 * 64 + q1 mod 64"
    unfolding q2_def by simp
  moreover have "q2 = q3 * 64 + q2 mod 64"
    unfolding q3_def by simp
  ultimately have "q3 * 262144 + q2 mod 64 * 4096 + q1 mod 64 * 64 + n mod 64 = n"
    by linarith
  then show ?thesis
    unfolding d2 d3 q1_def[symmetric] .
qed

lemma sextets_bound:
  fixes a b c :: nat
  assumes "a < 256" "b < 256" "c < 256"
  shows "(a * 65536 + b * 256 + c) div 262144 < 64"
  using assms by simp

lemma one_byte:
  fixes a :: nat
  assumes "a < 256"
  shows "a * 16 div 64 < 64" and "(a * 16 div 64 * 64 + a * 16 mod 64) div 16 = a"
proof -
  show "a * 16 div 64 < 64" using assms by simp
  have "a * 16 div 64 * 64 + a * 16 mod 64 = a * 16"
    by (rule div_mult_mod_eq)
  then show "(a * 16 div 64 * 64 + a * 16 mod 64) div 16 = a"
    by (simp only: nonzero_mult_div_cancel_right)
qed

lemma two_bytes:
  fixes a b :: nat
  assumes "a < 256" "b < 256"
  defines "n \<equiv> (a * 256 + b) * 4"
  shows "n div 4096 < 64"
    and "(n div 4096 * 4096 + n div 64 mod 64 * 64 + n mod 64) div 4 div 256 = a"
    and "(n div 4096 * 4096 + n div 64 mod 64 * 64 + n mod 64) div 4 mod 256 = b"
proof -
  show "n div 4096 < 64" using assms by (simp add: n_def)
  have "n div 4096 * 4096 + n div 64 mod 64 * 64 + n mod 64 = n"
  proof -
    have "n = n div 64 * 64 + n mod 64" by simp
    moreover have "n div 64 = n div 64 div 64 * 64 + n div 64 mod 64" by simp
    moreover have "n div 64 div 64 = n div 4096" by (simp add: div_mult2_eq[symmetric])
    ultimately show ?thesis by linarith
  qed
  moreover have "n div 4 = a * 256 + b" by (simp add: n_def)
  ultimately show "(n div 4096 * 4096 + n div 64 mod 64 * 64 + n mod 64) div 4 div 256 = a"
    and "(n div 4096 * 4096 + n div 64 mod 64 * 64 + n mod 64) div 4 mod 256 = b"
    using assms by simp_all
qed

lemma index_of_nth:
  "distinct xs \<Longrightarrow> i < length xs \<Longrightarrow> index_of (xs ! i) xs = Some i"
proof (induction xs arbitrary: i)
  case Nil
  then show ?case by simp
next
  case (Cons x xs)
  show ?case
  proof (cases i)
    case 0
    then show ?thesis by simp
  next
    case (Suc j)
    with Cons.prems have "j < length xs" "xs ! j \<noteq> x" by auto
    with Cons Suc show ?thesis by auto
  qed
qed

lemma length_b64_alphabet: "length b64_alphabet = 64"
  by (simp add: b64_alphabet_def)

lemma distinct_b64_alphabet: "distinct b64_alphabet"
  by (simp add: b64_alphabet_def)

lemma b64_index_nth: "i < 64 \<Longrightarrow> b64_index (b64_alphabet ! i) = Some i"
  by (simp add: b64_index_def index_of_nth distinct_b64_alphabet length_b64_alphabet)

lemma pad_notin_b64_alphabet: "CHR ''='' \<notin> set b64_alphabet"
  by (simp add: b64_alphabet_def)

lemma b64_alphabet_no_pad: "i < 64 \<Longrightarrow> b64_alphabet ! i \<noteq> CHR ''=''"
proof
  assume "i < 64" and eq: "b64_alphabet ! i = CHR ''=''"
  then have "i < length b64_alphabet"
    by (simp add: length_b64_alphabet)
  then have "b64_alphabet ! i \<in> set b64_alphabet"
    by (rule nth_mem)
  with eq pad_notin_b64_alphabet show False
    by simp
qed

lemma urlsafe_b64_roundtrip: "urlsafe_b64decode (urlsafe_b64encode s) = Some s"
proof (induction s rule: urlsafe_b64encode.induct)
  case 1
  show ?case by simp
next
  case (2 a)
  define x :: nat where "x = of_char a"
  have x: "x < 256" by (simp add: x_def)
  have i: "x * 16 div 64 < 64" using x by simp
  have j: "x * 16 mod 64 < 64" by simp
  have "(x * 16 div 64 * 64 + x * 16 mod 64) div 16 = x"
    using x by (rule one_byte)
  then show ?case
    using i j by (simp add: Let_def b64_index_nth x_def[symmetric]) (simp add: x_def)
next
  case (3 a b)
  define x :: nat where "x = of_char a"
  define y :: nat where "y = of_char b"
  define n where "n = (x * 256 + y) * 4"
  have x: "x < 256" "y < 256" by (simp_all add: x_def y_def)
  have i: "n div 4096 < 64" using x unfolding n_def by (rule two_bytes)
  have j: "n div 64 mod 64 < 64" "n mod 64 < 64" by simp_all
  have np: "b64_alphabet ! (n mod 64) \<noteq> CHR ''=''"
    using j(2) by (rule b64_alphabet_no_pad)
  have r: "(n div 4096 * 4096 + n div 64 mod 64 * 64 + n mod 64) div 4 div 256 = x"
    "(n div 4096 * 4096 + n div 64 mod 64 * 64 + n mod 64) div 4 mod 256 = y"
    using x unfolding n_def by (rule two_bytes)+
  have "urlsafe_b64decode [b64_alphabet ! (n div 4096), b64_alphabet ! (n div 64 mod 64),
          b64_alphabet ! (n mod 64), CHR ''=''] = Some [char_of x, char_of y]"
    using i j np r by (simp add: b64_index_nth Let_def del: char_of_mod_256)
  then show ?case
    by (simp add: Let_def n_def x_def y_def)
next
  case (4 a b c rest)
  define x :: nat where "x = of_char a"
  define y :: nat where "y = of_char b"
  define z :: nat where "z = of_char c"
  define n where "n = x * 65536 + y * 256 + z"
  have x: "x < 256" "y < 256" "z < 256" by (simp_all add: x_def y_def z_def)
  have i: "n div 262144 < 64" using x unfolding n_def by (rule sextets_bound)
  have j: "n div 4096 mod 64 < 64" "n div 64 mod 64 < 64" "n mod 64 < 64" by simp_all
  have np: "b64_alphabet ! (n mod 64) \<noteq> CHR ''=''"
    using j(3) by (rule b64_alphabet_no_pad)
  have m: "n div 262144 * 262144 + n div 4096 mod 64 * 4096 + n div 64 mod 64 * 64 + n mod 64 = n"
    by (rule sextets_join)
  have r: "n div 65536 = x" "n div 256 mod 256 = y" "n mod 256 = z"
    using x unfolding n_def by (rule bytes3_split)+
  have "urlsafe_b64decode ([b64_alphabet ! (n div 262144), b64_alphabet ! (n div 4096 mod 64),
          b64_alphabet ! (n div 64 mod 64), b64_alphabet ! (n mod 64)] @ urlsafe_b64encode rest)
        = Some (char_of x # char_of y # char_of z # rest)"
    using i j np "4.IH" by (simp add: b64_index_nth Let_def m r del: char_of_mod_256)
  then show ?case
    by (simp add: Let_def n_def x_def y_def z_def)
qed

subsection \<open>Percent-encoding\<close>

lemma hexval_hex_upper: "k < 16 \<Longrightarrow> hexval (hex_upper ! k) = Some k"
proof -
  assume "k < 16"
  moreover have "distinct hex_upper" "length hex_upper = 16"
    by (simp_all add: hex_upper_def)
  ultimately have "index_of (hex_upper ! k) hex_upper = Some k"
    by (simp add: index_of_nth)
  then show ?thesis by (simp add: hexval_def)
qed

lemma hex_upper_mem: "k < 16 \<Longrightarrow> hex_upper ! k \<in> set hex_upper"
proof -
  assume "k < 16"
  moreover have "length hex_upper = 16"
    by (simp add: hex_upper_def)
  ultimately have "k < length hex_upper" by simp
  then show ?thesis by (rule nth_mem)
qed

lemma of_char_nibbles:
  "(of_char c :: nat) div 16 < 16" "(of_char c :: nat) mod 16 < 16"
proof -
  have "(of_char c :: nat) < 16 * 16" by simp
  then show "(of_char c :: nat) div 16 < 16"
    by (simp only: less_mult_imp_div_less)
  show "(of_char c :: nat) mod 16 < 16" by simp
qed

lemma quoter_chars:
  "x \<in> set (quoter safe c) \<Longrightarrow> x \<in> set always_safe \<union> set safe \<union> set hex_upper \<union> {CHR ''%''}"
  by (auto simp: quoter_def hex_upper_mem of_char_nibbles split: if_splits)

lemma quote_plus_concat:
  "quote_plus s = concat (map (\<lambda>c. if c = CHR '' '' then ''+'' else quoter [] c) s)"
proof (cases "CHR '' '' \<in> set s")
  case False
  then have "concat (map (quoter []) s)
      = concat (map (\<lambda>c. if c = CHR '' '' then ''+'' else quoter [] c) s)"
    by (induction s) auto
  with False show ?thesis by (simp add: quote_plus_def quote_def)
next
  case True
  have sp: "CHR '' '' \<notin> set always_safe" "CHR '' '' \<notin> set hex_upper"
    by (simp_all add: always_safe_def hex_upper_def)
  have "replace_char CHR '' '' CHR ''+'' (quoter '' '' c)
          = (if c = CHR '' '' then ''+'' else quoter [] c)" for c
  proof (cases "c = CHR '' ''")
    case True
    then show ?thesis by (simp add: quoter_def replace_char_def)
  next
    case False
    then have q: "quoter '' '' c = quoter [] c"
      by (simp add: quoter_def)
    have "CHR '' '' \<notin> set (quoter [] c)"
      using quoter_chars [of "CHR '' ''" "[]" c] sp by auto
    then have "replace_char CHR '' '' CHR ''+'' (quoter [] c) = quoter [] c"
      unfolding replace_char_def by (intro map_idI) auto
    with q False show ?thesis by simp
  qed
  then have "replace_char CHR '' '' CHR ''+'' (concat (map (quoter '' '') s))
          = concat (map (\<lambda>c. if c = CHR '' '' then ''+'' else quoter [] c) s)"
    by (induction s) (simp_all add: replace_char_def)
  with True show ?thesis by (simp add: quote_plus_def quote_def)
qed

lemma quote_plus_chars:
  assumes "x \<in> set (quote_plus s)"
  shows "x \<noteq> CHR ''&''" and "x \<noteq> CHR ''=''"
proof -
  have ns: "CHR ''&'' \<notin> set always_safe \<union> set hex_upper \<union> {CHR ''%'', CHR ''+''}"
    "CHR ''='' \<notin> set always_safe \<union> set hex_upper \<union> {CHR ''%'', CHR ''+''}"
    by (simp_all add: always_safe_def hex_upper_def)
  from assms have "x \<in> set always_safe \<union> set hex_upper \<union> {CHR ''%'', CHR ''+''}"
    unfolding quote_plus_concat using quoter_chars [of x "[]"]
    by (auto split: if_splits)
  with ns show "x \<noteq> CHR ''&''" and "x \<noteq> CHR ''=''" by auto
qed

lemma unquote_escape:
  "hexval h1 = Some a \<Longrightarrow> hexval h2 = Some b \<Longrightarrow>
   unquote (CHR ''%'' # h1 # h2 # t) = char_of (a * 16 + b) # unquote t"
  by simp

lemma unquote_plus_step:
  "unquote_plus ((if c = CHR '' '' then ''+'' else quoter [] c) @ t) = c # unquote_plus t"
proof (cases "c = CHR '' ''")
  case True
  then show ?thesis by (simp add: unquote_plus_def replace_char_def)
next
  case sp: False
  show ?thesis
  proof (cases "c \<in> set always_safe")
    case True
    moreover have "CHR ''%'' \<notin> set always_safe" "CHR ''+'' \<notin> set always_safe"
      by (simp_all add: always_safe_def)
    ultimately have "c \<noteq> CHR ''%''" "c \<noteq> CHR ''+''" by auto
    with True sp show ?thesis
      by (simp add: unquote_plus_def replace_char_def quoter_def)
  next
    case False
    define n :: nat where "n = of_char c"
    have n: "n div 16 < 16" "n mod 16 < 16"
      by (simp_all only: n_def of_char_nibbles)
    have np: "CHR ''+'' \<notin> set hex_upper"
      by (simp add: hex_upper_def)
    have h: "hex_upper ! (n div 16) \<noteq> CHR ''+''" "hex_upper ! (n mod 16) \<noteq> CHR ''+''"
      using hex_upper_mem [OF n(1)] hex_upper_mem [OF n(2)] np by auto
    have "n div 16 * 16 + n mod 16 = n" by simp
    then have "char_of (n div 16 * 16 + n mod 16) = c"
      by (simp only: n_def char_of_char)
    then have "unquote (CHR ''%'' # hex_upper ! (n div 16) # hex_upper ! (n mod 16) # u) = c # unquote u" for u
      using unquote_escape [OF hexval_hex_upper [OF n(1)] hexval_hex_upper [OF n(2)]] by simp
    with False sp h show ?thesis
      by (simp add: unquote_plus_def replace_char_def quoter_def n_def del: unquote.simps)
  qed
qed

lemma unquote_plus_quote_plus: "unquote_plus (quote_plus s) = s"
proof -
  have "unquote_plus (concat (map (\<lambda>c. if c = CHR '' '' then ''+'' else quoter [] c) s)) = s"
  proof (induction s)
    case Nil
    show ?case by (simp add: unquote_plus_def replace_char_def)
  next
    case (Cons c s)
    then show ?case
      using unquote_plus_step [of c "concat (map (\<lambda>c. if c = CHR '' '' then ''+'' else quoter [] c) s)"]
      by simp
  qed
  then show ?thesis by (simp add: quote_plus_concat)
qed

subsection \<open>Query strings\<close>

lemma split_all_append_sep:
  "sep \<notin> set a \<Longrightarrow> split_all sep (a @ sep # b) = a # split_all sep b"
  by (induction a) auto

lemma split_all_join:
  "xs \<noteq> [] \<Longrightarrow> \<forall>x \<in> set xs. sep \<notin> set x \<Longrightarrow> split_all sep (join [sep] xs) = xs"
proof (induction "[sep]" xs rule: join.induct)
  case 1
  then show ?case by simp
next
  case (2 x)
  then show ?case by (simp add: split_all_no_sep)
next
  case (3 x y ys)
  then show ?case by (simp add: split_all_append_sep)
qed

lemma parse_qsl_urlencode: "parse_qsl (urlencode query) = query"
proof (cases "query = []")
  case True
  then show ?thesis by (simp add: parse_qsl_def urlencode_def)
next
  case False
  define f :: "string \<times> string \<Rightarrow> string"
    where "f = (\<lambda>(k, v). quote_plus k @ ''='' @ quote_plus v)"
  define g :: "string \<Rightarrow> (string \<times> string) list"
    where "g = (\<lambda>name_value.
                    if name_value = [] then []
                    else (case split_first CHR ''='' name_value of
                            [n, v] \<Rightarrow> [(unquote_plus n, unquote_plus v)]
                          | _ \<Rightarrow> [(unquote_plus name_value, [])]))"
  have amp: "\<forall>x \<in> set (map f query). CHR ''&'' \<notin> set x"
    using quote_plus_chars(1) by (fastforce simp: f_def)
  have "split_all CHR ''&'' (join ''&'' (map f query)) = map f query"
    using False amp by (intro split_all_join) simp_all
  then have p: "parse_qsl (urlencode query) = concat (map g (map f query))"
    by (simp add: parse_qsl_def urlencode_def f_def g_def)
  have gf: "g (f kv) = [kv]" for kv
  proof (cases kv)
    case (Pair k v)
    have "CHR ''='' \<notin> set (quote_plus k)"
      using quote_plus_chars(2) by blast
    then have "split_first CHR ''='' (quote_plus k @ CHR ''='' # quote_plus v) = [quote_plus k, quote_plus v]"
      by (rule split_first_header)
    with Pair show ?thesis by (simp add: unquote_plus_quote_plus f_def g_def)
  qed
  have "concat (map g (map f q)) = q" for q
    by (induction q) (simp_all add: gf)
  with p show ?thesis by simp
qed

subsection \<open>The authorize URL\<close>

lemmas adfs_sample_defs = sample_conf_def sample_external_def sample_adfs_def sample_web_request_def

text \<open>
  Claim C1. Whenever \<open>ADFSAuth.authenticate\<close> answers, it redirects to the authorize
  URI followed by a query string that carries \<open>client_id\<close>, \<open>redirect_uri\<close>,
  \<open>response_type=code\<close> and a \<open>state\<close> whose URL-safe base64 decoding is the
  redirect URI: the configured \<open>redirect_uri\<close> with the domain of the request filled in.
\<close>

theorem adfs_authenticate_url:
  assumes "adfs_authenticate cf ext self request = (Inr resp, self')"
  shows "\<exists>q. resp = Redirect (authorize_uri self @ ''?'' @ q)
           \<and> str_format ext (redirect_uri self) (get_domain ext request) service_name
                 = Inr (redirect_uri self')
           \<and> map_of (parse_qsl q) ''client_id'' = Some (ADFS_CLIENT_ID cf)
           \<and> map_of (parse_qsl q) ''redirect_uri'' = Some (redirect_uri self')
           \<and> map_of (parse_qsl q) ''response_type'' = Some ''code''
           \<and> (\<exists>s. map_of (parse_qsl q) ''state'' = Some s
                  \<and> urlsafe_b64decode s = Some (redirect_uri self'))"
proof -
  from assms obtain uri where
    fmt: "str_format ext (redirect_uri self) (get_domain ext request) service_name = Inr uri"
    and self': "self' = self\<lparr>redirect_uri := uri, state := Some (urlsafe_b64encode uri)\<rparr>"
    and resp: "resp = redirect (authorize_uri self @ ''?'' @ urlencode (authorize_params cf self'))"
    by (auto simp: adfs_authenticate_def Let_def split: sum.splits option.splits)
  let ?q = "urlencode (authorize_params cf self')"
  have p: "parse_qsl ?q = authorize_params cf self'"
    by (rule parse_qsl_urlencode)
  have "map_of (parse_qsl ?q) ''state'' = Some (urlsafe_b64encode uri)"
    unfolding p by (simp add: authorize_params_def self')
  moreover have "urlsafe_b64decode (urlsafe_b64encode uri) = Some (redirect_uri self')"
    by (simp add: urlsafe_b64_roundtrip self')
  moreover have "map_of (parse_qsl ?q) ''client_id'' = Some (ADFS_CLIENT_ID cf)"
    "map_of (parse_qsl ?q) ''redirect_uri'' = Some (redirect_uri self')"
    "map_of (parse_qsl ?q) ''response_type'' = Some ''code''"
    unfolding p by (simp_all add: authorize_params_def)
  moreover have "resp = Redirect (authorize_uri self @ ''?'' @ ?q)"
    using resp by (simp add: redirect_def)
  moreover have "str_format ext (redirect_uri self) (get_domain ext request) service_name
                 = Inr (redirect_uri self')"
    using fmt by (simp add: self')
  ultimately show ?thesis by blast
qed

lemma adfs_authenticate_sample:
  "\<exists>resp self'. adfs_authenticate sample_conf sample_external sample_adfs (sample_web_request [])
      = (Inr resp, self')"
  by (simp add: adfs_authenticate_def Let_def adfs_sample_defs configure_def)

theorem adfs_authenticate_url_witness:
  "\<exists>resp self' q.
     adfs_authenticate sample_conf sample_external sample_adfs (sample_web_request []) = (Inr resp, self')
     \<and> resp = Redirect (authorize_uri sample_adfs @ ''?'' @ q)
     \<and> redirect_uri self' = ''https://nav.io/auth/adfs/callback''
     \<and> map_of (parse_qsl q) ''client_id'' = Some ''client-1''
     \<and> map_of (parse_qsl q) ''redirect_uri'' = Some ''https://nav.io/auth/adfs/callback''
     \<and> map_of (parse_qsl q) ''response_type'' = Some ''code''
     \<and> (\<exists>s. map_of (parse_qsl q) ''state'' = Some s
            \<and> urlsafe_b64decode s = Some ''https://nav.io/auth/adfs/callback'')"
proof -
  obtain resp self' where
    a: "adfs_authenticate sample_conf sample_external sample_adfs (sample_web_request []) = (Inr resp, self')"
    using adfs_authenticate_sample by blast
  from adfs_authenticate_url [OF a] obtain q where
    q: "resp = Redirect (authorize_uri sample_adfs @ ''?'' @ q)"
       "str_format sample_external (redirect_uri sample_adfs)
          (get_domain sample_external (sample_web_request [])) service_name = Inr (redirect_uri self')"
       "map_of (parse_qsl q) ''client_id'' = Some (ADFS_CLIENT_ID sample_conf)"
       "map_of (parse_qsl q) ''redirect_uri'' = Some (redirect_uri self')"
       "map_of (parse_qsl q) ''response_type'' = Some ''code''"
       "\<exists>s. map_of (parse_qsl q) ''state'' = Some s \<and> urlsafe_b64decode s = Some (redirect_uri self')"
    by blast
  from q(2) have r: "redirect_uri self' = ''https://nav.io/auth/adfs/callback''"
    by (simp add: adfs_sample_defs configure_def)
  have c: "ADFS_CLIENT_ID sample_conf = ''client-1''"
    by (simp add: sample_conf_def)
  from a q r c show ?thesis by metis
qed

subsection \<open>The callback\<close>

lemma dom_foldl_update:
  "dom (map_of (foldl (\<lambda>d (k, v). AList.update k v d) acc kvs)) = dom (map_of acc) \<union> fst ` set kvs"
proof (induction kvs arbitrary: acc)
  case Nil
  show ?case by simp
next
  case (Cons kv kvs)
  obtain k v where kv: "kv = (k, v)" by (cases kv)
  have "dom (map_of (foldl (\<lambda>d (k, v). AList.update k v d) (AList.update k v acc) kvs))
          = dom (map_of (AList.update k v acc)) \<union> fst ` set kvs"
    by (rule Cons.IH)
  also have "dom (map_of (AList.update k v acc)) = insert k (dom (map_of acc))"
    by (simp add: update_conv')
  finally show ?case
    by (simp add: kv)
qed

lemma dict_of_items_has_key:
  "map_of (dict_of_items kvs) k \<noteq> None \<longleftrightarrow> k \<in> fst ` set kvs"
  using dom_foldl_update [of "[]" kvs] by (auto simp: dict_of_items_def dom_def)

lemma callback_code_error:
  assumes "''error'' \<in> fst ` set (rel_url_query request)"
  shows "callback_code ext request =
           Inl (HTTPForbidden (''ADFS: Invalid Callback response: ''
                  @ ''ADFS: Unable to Authenticate: ''
                  @ repr_dict ext (dict_of_items (rel_url_query request))
                  @ '': '' @ repr_dict ext (dict_of_items (rel_url_query request))))"
  using assms dict_of_items_has_key [of "rel_url_query request" "''error''"]
  by (simp add: callback_code_def Let_def)

lemma callback_code_missing:
  assumes "''error'' \<notin> fst ` set (rel_url_query request)"
    and "''code'' \<notin> fst ` set (rel_url_query request)"
  shows "callback_code ext request =
           Inl (HTTPForbidden (''ADFS: Invalid Callback response: ''
                  @ ext_repr ext ''code''
                  @ '': '' @ repr_dict ext (dict_of_items (rel_url_query request))))"
  using assms dict_of_items_has_key [of "rel_url_query request" "''error''"]
    dict_of_items_has_key [of "rel_url_query request" "''code''"]
  by (simp add: callback_code_def Let_def)

lemma auth_callback_no_code:
  assumes "callback_code ext request = Inl err"
  shows "snd (snd (auth_callback cf ext self request)) = []"
  using assms by (simp add: auth_callback_def Let_def split: sum.splits)

lemma callback_exchange_error:
  assumes "post ext (token_uri self) (token_params cf code)
             [(''Content-Type'', ''application/x-www-form-urlencoded'')] = Inr exchange"
    and "exchange ''error'' \<noteq> None"
  shows "callback_exchange cf ext self code =
           (Inl (HTTPForbidden (''Invalid Response from Token Server ''
                   @ (''ADFS '' @ str_opt (exchange ''error'') @ '': ''
                        @ str_opt (exchange ''error_description'') @ [CHR 0xC2, CHR 0xA1])
                   @ ''.'')),
            [EvPost (token_uri self) (token_params cf code)
               [(''Content-Type'', ''application/x-www-form-urlencoded'')]])"
  using assms by (simp add: callback_exchange_def Let_def)

lemma callback_exchange_transport:
  assumes "post ext (token_uri self) (token_params cf code)
             [(''Content-Type'', ''application/x-www-form-urlencoded'')] = Inl err"
  shows "callback_exchange cf ext self code =
           (Inl (HTTPForbidden (''Invalid Response from Token Server ''
                   @ str_exn (ext_repr ext) err @ ''.'')),
            [EvPost (token_uri self) (token_params cf code)
               [(''Content-Type'', ''application/x-www-form-urlencoded'')]])"
  using assms by (simp add: callback_exchange_def Let_def)

text \<open>
  Claim C2 asks that a callback whose query contains \<open>error\<close> is rejected as denied by
  the provider. No call is made, so no token-exchange POST. But the rejection raised for
  the denial is caught by the \<open>except\<close> clause of its own \<open>try\<close>, the clause of a callback
  without \<open>code\<close>: the request leaves with the rejection of that clause, which only
  quotes the message of the denial, as the callback without \<open>code\<close> does with the missing
  key.
\<close>

theorem auth_callback_error_param:
  "fst (auth_callback sample_conf sample_external sample_adfs
          (sample_web_request [(''error'', ''access_denied'')]))
     = Inl (HTTPForbidden (''ADFS: Invalid Callback response: ''
              @ ''ADFS: Unable to Authenticate: ''
              @ repr_dict sample_external [(''error'', ''access_denied'')]
              @ '': '' @ repr_dict sample_external [(''error'', ''access_denied'')]))
   \<and> snd (snd (auth_callback sample_conf sample_external sample_adfs
          (sample_web_request [(''error'', ''access_denied'')]))) = []
   \<and> fst (auth_callback sample_conf sample_external sample_adfs (sample_web_request []))
     = Inl (HTTPForbidden (''ADFS: Invalid Callback response: ''
              @ ext_repr sample_external ''code''
              @ '': '' @ repr_dict sample_external []))"
  by (simp add: auth_callback_def callback_code_def dict_of_items_def Let_def
        adfs_sample_defs configure_def)

text \<open>
  Claim C3 asks that a token response containing \<open>error\<close> and a transport failure of
  the exchange give distinct kinds of rejection. No identity is built in either case,
  but the rejection raised for the \<open>error\<close> field is caught by the \<open>except\<close> clause
  meant for the failing exchange: both leave as the same \<open>HTTPForbidden\<close> of that clause,
  and a transport error with the same text gives the very same result.
\<close>

theorem auth_callback_exchange_error:
  "auth_callback sample_conf sample_external sample_adfs (sample_web_request [(''code'', ''abc'')])
     = (Inl (HTTPForbidden (''Invalid Response from Token Server ''
               @ (''ADFS invalid_grant: expired'' @ [CHR 0xC2, CHR 0xA1]) @ ''.'')),
        sample_adfs\<lparr>redirect_uri := ''https://nav.io/auth/adfs/callback''\<rparr>,
        [EvPost (token_uri sample_adfs) (token_params sample_conf ''abc'')
           [(''Content-Type'', ''application/x-www-form-urlencoded'')]])
   \<and> fst (auth_callback sample_conf
            (sample_external\<lparr>post := (\<lambda>uri d h. Inl (OtherError ''Connection refused''))\<rparr>)
            sample_adfs (sample_web_request [(''code'', ''abc'')]))
     = Inl (HTTPForbidden (''Invalid Response from Token Server '' @ ''Connection refused'' @ ''.''))
   \<and> auth_callback sample_conf
        (sample_external\<lparr>post := (\<lambda>uri d h.
            Inl (OtherError (''ADFS invalid_grant: expired'' @ [CHR 0xC2, CHR 0xA1])))\<rparr>)
        sample_adfs (sample_web_request [(''code'', ''abc'')])
     = auth_callback sample_conf sample_external sample_adfs (sample_web_request [(''code'', ''abc'')])"
  by (simp add: auth_callback_def callback_code_def callback_exchange_def dict_of_items_def Let_def
        adfs_sample_defs configure_def)

end
